theory Spec2Isabelle
  imports Main "HOL-Library.Sublist"
begin

section \<open>Python values used by jobs\_scraper.py\<close>

text \<open>
  A Python \<open>str\<close> is a sequence of Unicode code points, so a string is a list of
  natural numbers and \<open>S ''abc''\<close> is the string of an ASCII literal. Code points
  are needed because the source uses two characters beyond Latin-1: the en dash
  U+2013 in the first experience pattern and the em dash U+2014 in the e-mail table.

  The whitespace test is the full table of \<open>str.isspace\<close>. Lower-casing and the
  decimal-digit test are written out for ASCII, which is where the source's keywords,
  patterns and location terms live; a cased letter or a decimal digit outside ASCII is
  left as it is, respectively not counted as a digit.
\<close>

type_synonym pystr = "nat list"

definition S :: "string \<Rightarrow> pystr" where
  "S cs = map of_char cs"

definition isspace :: "nat \<Rightarrow> bool" where
  "isspace c \<longleftrightarrow>
     (9 \<le> c \<and> c \<le> 13) \<or> (28 \<le> c \<and> c \<le> 32) \<or> c = 133 \<or> c = 160 \<or> c = 5760 \<or>
     (8192 \<le> c \<and> c \<le> 8202) \<or> c = 8232 \<or> c = 8233 \<or> c = 8239 \<or> c = 8287 \<or> c = 12288"

definition isdecimal :: "nat \<Rightarrow> bool" where
  "isdecimal c \<longleftrightarrow> 48 \<le> c \<and> c \<le> 57"

definition lower_char :: "nat \<Rightarrow> nat" where
  "lower_char c = (if 65 \<le> c \<and> c \<le> 90 then c + 32 else c)"

definition lower :: "pystr \<Rightarrow> pystr" where
  "lower s = map lower_char s"

text \<open>\<open>int(s)\<close> on a string of decimal digits.\<close>

definition int_of_digits :: "pystr \<Rightarrow> int" where
  "int_of_digits s = foldl (\<lambda>acc c. 10 * acc + (int c - 48)) 0 s"

text \<open>\<open>k in t\<close> on strings: \<open>k\<close> occurs in \<open>t\<close> as a contiguous substring.\<close>

fun str_in :: "pystr \<Rightarrow> pystr \<Rightarrow> bool" where
  "str_in k [] = (k = [])"
| "str_in k (c # cs) = (prefix k (c # cs) \<or> str_in k cs)"

text \<open>
  \<open>text.split()\<close> without a separator: the maximal runs of non-whitespace, none of
  them empty. \<open>cur\<close> is the word being read.
\<close>

fun split_from :: "pystr \<Rightarrow> pystr \<Rightarrow> pystr list" where
  "split_from cur [] = (if cur = [] then [] else [cur])"
| "split_from cur (c # cs) =
     (if isspace c then (if cur = [] then split_from [] cs else cur # split_from [] cs)
      else split_from (cur @ [c]) cs)"

definition split :: "pystr \<Rightarrow> pystr list" where
  "split s = split_from [] s"

text \<open>\<open>sep.join(words)\<close> on a list of strings.\<close>

fun join :: "pystr \<Rightarrow> pystr list \<Rightarrow> pystr" where
  "join sep [] = []"
| "join sep [w] = w"
| "join sep (w # v # ws) = w @ sep @ join sep (v # ws)"

text \<open>\<open>str(i)\<close> on a non-negative integer.\<close>

fun str_nat :: "nat \<Rightarrow> pystr" where
  "str_nat n = (if n < 10 then [48 + n] else str_nat (n div 10) @ [48 + n mod 10])"

text \<open>
  The values a job dictionary holds are strings or \<open>None\<close>. A dictionary with string
  keys is a map: \<open>j k = None\<close> says that the key is absent, \<open>j k = Some PNone\<close> that it
  is present with the value \<open>None\<close>.
\<close>

datatype pyval = PNone | PStr pystr

datatype pyerror = TypeError | KeyError | AttributeError | RuntimeError | SMTPException

type_synonym job = "string \<rightharpoonup> pyval"

text \<open>Truth value of a Python value: \<open>None\<close> and the empty string are false.\<close>

fun truthy :: "pyval \<Rightarrow> bool" where
  "truthy PNone = False"
| "truthy (PStr s) = (s \<noteq> [])"

text \<open>\<open>j.get(k, d)\<close>, and \<open>j.get(k)\<close> is \<open>dict_get j k PNone\<close>.\<close>

definition dict_get :: "job \<Rightarrow> string \<Rightarrow> pyval \<Rightarrow> pyval" where
  "dict_get j k d = (case j k of None \<Rightarrow> d | Some v \<Rightarrow> v)"

text \<open>\<open>j[k]\<close> raises \<open>KeyError\<close> on an absent key.\<close>

definition dict_index :: "job \<Rightarrow> string \<Rightarrow> pyerror + pyval" where
  "dict_index j k = (case j k of None \<Rightarrow> Inl KeyError | Some v \<Rightarrow> Inr v)"

text \<open>\<open>a or b\<close> on values.\<close>

definition py_or :: "pyval \<Rightarrow> pyval \<Rightarrow> pyval" where
  "py_or a b = (if truthy a then a else b)"

text \<open>Sequencing of steps that may raise: the first error is the result.\<close>

definition bind :: "pyerror + 'a \<Rightarrow> ('a \<Rightarrow> pyerror + 'b) \<Rightarrow> pyerror + 'b" where
  "bind r f = (case r of Inl e \<Rightarrow> Inl e | Inr v \<Rightarrow> f v)"

text \<open>
  \<open>sep.join(values)\<close> on a list of values: \<open>TypeError\<close> when an item is not a string.
\<close>

fun strings_of :: "pyval list \<Rightarrow> pyerror + pystr list" where
  "strings_of [] = Inr []"
| "strings_of (PNone # vs) = Inl TypeError"
| "strings_of (PStr s # vs) = bind (strings_of vs) (\<lambda>ss. Inr (s # ss))"

definition join_values :: "pystr \<Rightarrow> pyval list \<Rightarrow> pyerror + pystr" where
  "join_values sep vs = bind (strings_of vs) (\<lambda>ss. Inr (join sep ss))"

text \<open>
  \<open>html.escape(s)\<close> with its default \<open>quote=True\<close>: the five characters
  \<open>&\<close>, \<open><\<close>, \<open>>\<close>, \<open>"\<close> and \<open>'\<close> are replaced, \<open>&\<close> first, so that each character
  of \<open>s\<close> is replaced once. On \<open>None\<close> the call \<open>s.replace\<close> raises \<open>AttributeError\<close>.
\<close>

definition escape_char :: "nat \<Rightarrow> pystr" where
  "escape_char c =
     (if c = of_char CHR ''&'' then S ''&amp;''
      else if c = of_char CHR ''<'' then S ''&lt;''
      else if c = of_char CHR ''>'' then S ''&gt;''
      else if c = of_char CHR 0x22 then S ''&quot;''
      else if c = of_char CHR 0x27 then S ''&#x27;''
      else [c])"

definition escape_str :: "pystr \<Rightarrow> pystr" where
  "escape_str s = concat (map escape_char s)"

fun html_escape :: "pyval \<Rightarrow> pyerror + pystr" where
  "html_escape PNone = Inl AttributeError"
| "html_escape (PStr s) = Inr (escape_str s)"

text \<open>A value inside an f-string, \<open>f"{v}"\<close>.\<close>

fun format_value :: "pyval \<Rightarrow> pystr" where
  "format_value PNone = S ''None''"
| "format_value (PStr s) = s"

section \<open>Configuration\<close>

definition KEYWORDS :: "pystr list" where
  "KEYWORDS =
     [S ''DevOps Engineer'', S ''Cloud Engineer'', S ''Site Reliability Engineer'',
      S ''Platform Engineer'', S ''Infrastructure Engineer'', S ''AWS Engineer'',
      S ''Azure DevOps Engineer'', S ''Kubernetes Engineer'']"

definition MIN_YEARS :: int where
  "MIN_YEARS = 2"

definition MAX_YEARS :: int where
  "MAX_YEARS = 6"

section \<open>Utilities\<close>

definition normalize_text :: "pystr \<Rightarrow> pystr" where
  "normalize_text text = (if text \<noteq> [] then join (S '' '') (split text) else [])"

subsection \<open>The regular expressions of \<open>parse_experience_text\<close>\<close>

text \<open>
  The four patterns are sequences of single characters and greedy repetitions of a
  single character set, some of them capturing. \<open>rx_match\<close> is the backtracking
  matcher of \<open>re\<close> on such a sequence, anchored at the start of its input: a
  repetition first takes as many characters as it may and gives them back one at a time
  while the rest of the pattern fails. It returns the text of the groups, in order.
  \<open>rx_search\<close> is \<open>re.search\<close>: the match at the leftmost position that has one.
\<close>

datatype atom = Digit | Space | Chr nat | AnyOf "nat list"

fun in_atom :: "atom \<Rightarrow> nat \<Rightarrow> bool" where
  "in_atom Digit c = isdecimal c"
| "in_atom Space c = isspace c"
| "in_atom (Chr d) c = (c = d)"
| "in_atom (AnyOf ds) c = (c \<in> set ds)"

datatype piece =
    One atom
  | Many bool atom nat "nat option"

text \<open>\<open>tries f lo k\<close> is the first success among \<open>f k\<close>, \<open>f (k - 1)\<close>, ..., \<open>f lo\<close>.\<close>

fun tries :: "(nat \<Rightarrow> 'b option) \<Rightarrow> nat \<Rightarrow> nat \<Rightarrow> 'b option" where
  "tries f lo 0 = (if lo = 0 then f 0 else None)"
| "tries f lo (Suc k) =
     (if lo \<le> Suc k then (case f (Suc k) of Some r \<Rightarrow> Some r | None \<Rightarrow> tries f lo k) else None)"

fun rx_match :: "piece list \<Rightarrow> pystr \<Rightarrow> pystr list option" where
  "rx_match [] s = Some []"
| "rx_match (One a # ps) [] = None"
| "rx_match (One a # ps) (c # cs) = (if in_atom a c then rx_match ps cs else None)"
| "rx_match (Many capture a lo hi # ps) s =
     (let avail = length (takeWhile (in_atom a) s);
          most = (case hi of None \<Rightarrow> avail | Some h \<Rightarrow> min h avail)
      in tries
           (\<lambda>k. case rx_match ps (drop k s) of
                  None \<Rightarrow> None
                | Some groups \<Rightarrow> Some (if capture then take k s # groups else groups))
           lo most)"

fun rx_search :: "piece list \<Rightarrow> pystr \<Rightarrow> pystr list option" where
  "rx_search ps [] = rx_match ps []"
| "rx_search ps (c # cs) =
     (case rx_match ps (c # cs) of Some groups \<Rightarrow> Some groups | None \<Rightarrow> rx_search ps cs)"

definition lit :: "string \<Rightarrow> piece list" where
  "lit cs = map (\<lambda>c. One (Chr (of_char c))) cs"

definition digits12 :: piece where
  "digits12 = Many True Digit 1 (Some 2)"

definition spaces0 :: piece where
  "spaces0 = Many False Space 0 None"

definition spaces1 :: piece where
  "spaces1 = Many False Space 1 None"

definition years :: "piece list" where
  "years = lit ''year'' @ [Many False (Chr (of_char CHR ''s'')) 0 (Some 1)]"

text \<open>\<^verbatim>\<open>(\d{1,2})\s*[-\<endash>]\s*(\d{1,2})\s*years?\<close>, the class being hyphen or en dash.\<close>

definition rx_range :: "piece list" where
  "rx_range = [digits12, spaces0, One (AnyOf [of_char CHR ''-'', 8211]), spaces0, digits12, spaces0] @ years"

text \<open>\<^verbatim>\<open>(\d{1,2})\s*\+\s*years?\<close>\<close>

definition rx_plus :: "piece list" where
  "rx_plus = [digits12, spaces0, One (Chr (of_char CHR ''+'')), spaces0] @ years"

text \<open>\<^verbatim>\<open>minimum\s+of\s+(\d{1,2})\s*years?\<close>\<close>

definition rx_minimum :: "piece list" where
  "rx_minimum = lit ''minimum'' @ [spaces1] @ lit ''of'' @ [spaces1, digits12, spaces0] @ years"

text \<open>\<^verbatim>\<open>(\d{1,2})\s*years?\<close>\<close>

definition rx_years :: "piece list" where
  "rx_years = [digits12, spaces0] @ years"

subsection \<open>Experience\<close>

definition parse_experience_text :: "pystr \<Rightarrow> int option \<times> int option" where
  "parse_experience_text text0 =
     (if text0 = [] then (None, None)
      else let text = lower text0 in
        case rx_search rx_range text of
          Some m \<Rightarrow> (Some (int_of_digits (m ! 0)), Some (int_of_digits (m ! 1)))
        | None \<Rightarrow>
        (case rx_search rx_plus text of
          Some m \<Rightarrow> (Some (int_of_digits (m ! 0)), None)
        | None \<Rightarrow>
        (case rx_search rx_minimum text of
          Some m \<Rightarrow> (Some (int_of_digits (m ! 0)), None)
        | None \<Rightarrow>
        (case rx_search rx_years text of
          Some m \<Rightarrow> (let y = int_of_digits (m ! 0) in (Some y, Some y))
        | None \<Rightarrow> (None, None)))))"

definition experience_matches :: "int option \<Rightarrow> int option \<Rightarrow> bool" where
  "experience_matches min_y max_y =
     (if min_y = None \<and> max_y = None then True
      else if min_y \<noteq> None \<and> max_y \<noteq> None then
        \<not> (the max_y < MIN_YEARS \<or> the min_y > MAX_YEARS)
      else if min_y \<noteq> None then the min_y \<le> MAX_YEARS
      else if max_y \<noteq> None then the max_y \<ge> MIN_YEARS
      else False)"

text \<open>
  The same chain of tests, returning which \<open>return\<close> statement of
  \<open>experience_matches\<close> is reached instead of its value.
\<close>

datatype branch = Both_unknown | Both_known | Only_lower | Only_upper | Final_false

definition experience_branch :: "int option \<Rightarrow> int option \<Rightarrow> branch" where
  "experience_branch min_y max_y =
     (if min_y = None \<and> max_y = None then Both_unknown
      else if min_y \<noteq> None \<and> max_y \<noteq> None then Both_known
      else if min_y \<noteq> None then Only_lower
      else if max_y \<noteq> None then Only_upper
      else Final_false)"

definition location_matches :: "pyval \<Rightarrow> bool" where
  "location_matches location_text =
     (if \<not> truthy location_text then True
      else case location_text of
        PStr s \<Rightarrow>
          (let t = lower s
           in list_ex (\<lambda>key. str_in key t)
                [S ''remote'', S ''india'', S ''pan india'', S ''india remote''])
      | PNone \<Rightarrow> True)"

definition text_contains_keywords :: "pystr \<Rightarrow> bool" where
  "text_contains_keywords text =
     (let t = lower text
      in if list_ex (\<lambda>kw. str_in (lower kw) t) KEYWORDS then True
         else list_ex (\<lambda>word. str_in word t)
                [S ''devops'', S ''cloud'', S ''sre'', S ''site reliability''])"

section \<open>Scrapers\<close>

text \<open>
  The network and the HTML parser are outside the program. \<open>http_get w url\<close> is the
  text of the response to \<open>requests.get(url, ...)\<close>, and \<open>soup_select w text sel\<close> the
  anchors that \<open>BeautifulSoup(text, "html.parser").select(sel)\<close> finds; either may raise
  an exception instead, which carries its message. An anchor is given by what the
  scrapers read from it: its \<open>href\<close> attribute if it has one, its text, and the text of
  its parent if it has one. Reading these from a parsed anchor does not raise.
\<close>

datatype pyexn = Exception pystr

datatype selector = Anchor_with_attr pystr | Anchor_href_contains pystr

record anchor =
  a_href :: "pystr option"
  a_text :: pystr
  a_parent_text :: "pystr option"

record web =
  http_get :: "pystr \<Rightarrow> pyexn + pystr"
  soup_select :: "pystr \<Rightarrow> selector \<Rightarrow> pyexn + anchor list"

definition indeed_job :: "anchor \<Rightarrow> job" where
  "indeed_job a =
     (let link0 = (case a_href a of None \<Rightarrow> [] | Some h \<Rightarrow> h);
          link = (if prefix (S ''/'') link0 then S ''https://in.indeed.com'' @ link0 else link0);
          title = normalize_text (a_text a);
          snippet = (case a_parent_text a of Some p \<Rightarrow> normalize_text p | None \<Rightarrow> [])
      in [''title'' \<mapsto> PStr title, ''company'' \<mapsto> PNone, ''location'' \<mapsto> PStr snippet,
          ''link'' \<mapsto> PStr link, ''source'' \<mapsto> PStr (S ''Indeed''),
          ''snippet'' \<mapsto> PStr snippet])"

fun indeed_loop :: "job list \<Rightarrow> anchor list \<Rightarrow> job list" where
  "indeed_loop results [] = results"
| "indeed_loop results (a # as) = indeed_loop (results @ [indeed_job a]) as"

text \<open>
  The body of the \<open>try\<close> statement: the results appended so far, and the exception that
  ended it if one did.
\<close>

definition indeed_try :: "web \<Rightarrow> pystr \<Rightarrow> job list \<times> pyexn option" where
  "indeed_try w url =
     (case http_get w url of
        Inl e \<Rightarrow> ([], Some e)
      | Inr text \<Rightarrow>
          (case soup_select w text (Anchor_with_attr (S ''data-jk'')) of
             Inl e \<Rightarrow> ([], Some e)
           | Inr anchors \<Rightarrow> (indeed_loop [] (take 25 anchors), None)))"

text \<open>A scraper returns its results and the lines it printed.\<close>

definition indeed_url :: "pystr \<Rightarrow> pystr" where
  "indeed_url query_kw =
     (let q = join (S ''+'') (split query_kw)
      in S ''https://in.indeed.com/jobs?q='' @ q @ S ''+remote+cloud+devops&l=India'')"

definition scrape_indeed :: "web \<Rightarrow> pystr \<Rightarrow> job list \<times> pystr list" where
  "scrape_indeed w query_kw =
     (let url = indeed_url query_kw
      in case indeed_try w url of
           (results, None) \<Rightarrow> (results, [])
         | (results, Some (Exception e)) \<Rightarrow> (results, [S ''Indeed error: '' @ e]))"

definition wellfound_job :: "pystr \<Rightarrow> pystr \<Rightarrow> job" where
  "wellfound_job title link =
     [''title'' \<mapsto> PStr title, ''company'' \<mapsto> PNone, ''location'' \<mapsto> PStr (S ''Remote''),
      ''link'' \<mapsto> PStr link, ''source'' \<mapsto> PStr (S ''Wellfound''),
      ''snippet'' \<mapsto> PStr title]"

fun wellfound_loop :: "pystr set \<Rightarrow> job list \<Rightarrow> anchor list \<Rightarrow> job list" where
  "wellfound_loop seen results [] = results"
| "wellfound_loop seen results (a # as) =
     (case a_href a of
        None \<Rightarrow> wellfound_loop seen results as
      | Some href \<Rightarrow>
          if href = [] then wellfound_loop seen results as
          else let link = (if prefix (S ''/'') href then S ''https://wellfound.com'' @ href
                           else href)
               in if link \<in> seen then wellfound_loop seen results as
                  else let title = normalize_text (a_text a)
                       in wellfound_loop (insert link seen)
                            (results @ [wellfound_job title link]) as)"

definition wellfound_try :: "web \<Rightarrow> pystr \<Rightarrow> job list \<times> pyexn option" where
  "wellfound_try w url =
     (case http_get w url of
        Inl e \<Rightarrow> ([], Some e)
      | Inr text \<Rightarrow>
          (case soup_select w text (Anchor_href_contains (S ''/jobs/'')) of
             Inl e \<Rightarrow> ([], Some e)
           | Inr anchors \<Rightarrow> (wellfound_loop {} [] anchors, None)))"

definition wellfound_url :: "pystr \<Rightarrow> pystr" where
  "wellfound_url query_kw =
     (let q = join (S ''+'') (split query_kw)
      in S ''https://wellfound.com/jobs?search='' @ q @ S ''&remote=true'')"

definition scrape_wellfound :: "web \<Rightarrow> pystr \<Rightarrow> job list \<times> pystr list" where
  "scrape_wellfound w query_kw =
     (let url = wellfound_url query_kw
      in case wellfound_try w url of
           (results, None) \<Rightarrow> (results, [])
         | (results, Some (Exception e)) \<Rightarrow> (results, [S ''Wellfound error: '' @ e]))"

section \<open>Processing\<close>

text \<open>The first loop of \<open>collect_jobs\<close>: the jobs gathered and the lines printed.\<close>

fun fetch_loop :: "web \<Rightarrow> job list \<Rightarrow> pystr list \<Rightarrow> pystr list \<Rightarrow> job list \<times> pystr list" where
  "fetch_loop w jobs out [] = (jobs, out)"
| "fetch_loop w jobs out (kw # kws) =
     (let (indeed, out1) = scrape_indeed w kw;
          (wellfound, out2) = scrape_wellfound w kw
      in fetch_loop w (jobs @ indeed @ wellfound) (out @ out1 @ out2) kws)"

definition dedup_key :: "job \<Rightarrow> pyval" where
  "dedup_key job = py_or (dict_get job ''link'' PNone) (dict_get job ''title'' PNone)"

text \<open>
  The dictionary \<open>unique\<close> keeps the order of insertion, and no key is written twice:
  it is the list of its items.
\<close>

fun unique_loop :: "(pyval \<times> job) list \<Rightarrow> job list \<Rightarrow> (pyval \<times> job) list" where
  "unique_loop unique [] = unique"
| "unique_loop unique (job # jobs) =
     (let key = dedup_key job
      in if truthy key \<and> key \<notin> set (map fst unique)
         then unique_loop (unique @ [(key, job)]) jobs
         else unique_loop unique jobs)"

definition fetched_jobs :: "web \<Rightarrow> job list" where
  "fetched_jobs w = fst (fetch_loop w [] [] KEYWORDS)"

definition collect_jobs :: "web \<Rightarrow> job list \<times> pystr list" where
  "collect_jobs w =
     (let (jobs, out) = fetch_loop w [] [] KEYWORDS
      in (map snd (unique_loop [] jobs), out))"

definition joined_fields :: "job \<Rightarrow> pyerror + pystr" where
  "joined_fields j =
     join_values (S '' '')
       [dict_get j ''title'' (PStr []), dict_get j ''company'' (PStr []),
        dict_get j ''location'' (PStr []), dict_get j ''snippet'' (PStr [])]"

fun filter_loop :: "job list \<Rightarrow> job list \<Rightarrow> pyerror + job list" where
  "filter_loop filtered [] = Inr filtered"
| "filter_loop filtered (j # js) =
     bind (joined_fields j) (\<lambda>joined.
       let combined = normalize_text joined
       in if \<not> text_contains_keywords combined then filter_loop filtered js
          else let (min_y, max_y) = parse_experience_text combined
               in if \<not> experience_matches min_y max_y then filter_loop filtered js
                  else if \<not> location_matches (dict_get j ''location'' (PStr []))
                       then filter_loop filtered js
                  else filter_loop (filtered @ [j]) js)"

definition filter_jobs :: "job list \<Rightarrow> pyerror + job list" where
  "filter_jobs jobs = filter_loop [] jobs"

definition apos :: pystr where
  "apos = [of_char CHR 0x27]"

definition em_dash :: pystr where
  "em_dash = [8212]"

definition build_row :: "nat \<Rightarrow> job \<Rightarrow> pyerror + pystr" where
  "build_row i j =
     bind (dict_index j ''link'') (\<lambda>link.
     bind (dict_index j ''title'') (\<lambda>title.
     bind (html_escape title) (\<lambda>title_html.
     bind (let company = dict_get j ''company'' PNone
           in if truthy company then Inr company else dict_index j ''source'') (\<lambda>company.
     bind (html_escape company) (\<lambda>company_html.
     bind (html_escape (py_or (dict_get j ''location'' PNone) (PStr em_dash))) (\<lambda>location_html.
       Inr (S ''<tr>''
            @ S ''<td>'' @ str_nat i @ S ''</td>''
            @ S ''<td><a href='' @ apos @ format_value link @ apos @ S ''>'' @ title_html
              @ S ''</a></td>''
            @ S ''<td>'' @ company_html @ S ''</td>''
            @ S ''<td>'' @ location_html @ S ''</td>''
            @ S ''</tr>'')))))))"

fun build_rows :: "pystr list \<Rightarrow> nat \<Rightarrow> job list \<Rightarrow> pyerror + pystr list" where
  "build_rows rows i [] = Inr rows"
| "build_rows rows i (j # js) = bind (build_row i j) (\<lambda>row. build_rows (rows @ [row]) (Suc i) js)"

definition build_email_html :: "job list \<Rightarrow> pyerror + pystr" where
  "build_email_html jobs =
     (if jobs = [] then Inr (S ''<p>No matching jobs found today.</p>'')
      else bind (build_rows [] 1 jobs) (\<lambda>rows.
        Inr (S ''<table border='' @ apos @ S ''1'' @ apos @ S '' cellpadding='' @ apos @ S ''6''
               @ apos @ S ''>''
             @ S ''<tr><th>#</th><th>Title</th><th>Company</th><th>Location</th></tr>''
             @ join [] rows
             @ S ''</table>'')))"

section \<open>Sending\<close>

text \<open>
  The environment variables read at import: \<open>os.environ.get\<close> gives \<open>None\<close> for a
  variable that is not set. The mail server is outside the program: \<open>net e\<close> says
  whether the network operation \<open>e\<close> succeeds, and \<open>send_email\<close> returns, with its
  result, the operations it attempted, in order.
\<close>

record config =
  GMAIL_USER :: pyval
  GMAIL_APP_PASSWORD :: pyval
  EMAIL_TO :: pyval
  SENDER_NAME :: pystr

record message =
  msg_from :: pystr
  msg_to :: pyval
  msg_subject :: pystr
  msg_html :: pystr

datatype smtp_event =
    Connect pystr nat
  | Starttls
  | Login pyval pyval
  | Sendmail pyval pyval message

fun smtp_session :: "(smtp_event \<Rightarrow> bool) \<Rightarrow> smtp_event list \<Rightarrow> (pyerror + unit) \<times> smtp_event list" where
  "smtp_session net [] = (Inr (), [])"
| "smtp_session net (e # es) =
     (if net e then (let (r, done) = smtp_session net es in (r, e # done))
      else (Inl SMTPException, [e]))"

definition send_email :: "config \<Rightarrow> (smtp_event \<Rightarrow> bool) \<Rightarrow> pystr \<Rightarrow> pystr \<Rightarrow> (pyerror + unit) \<times> smtp_event list" where
  "send_email cfg net subject body =
     (if \<not> truthy (GMAIL_USER cfg) \<or> \<not> truthy (GMAIL_APP_PASSWORD cfg)
      then (Inl RuntimeError, [])
      else let msg = \<lparr>msg_from = SENDER_NAME cfg @ S '' <'' @ format_value (GMAIL_USER cfg) @ S ''>'',
                        msg_to = EMAIL_TO cfg, msg_subject = subject, msg_html = body\<rparr>
           in smtp_session net
                [Connect (S ''smtp.gmail.com'') 587, Starttls,
                 Login (GMAIL_USER cfg) (GMAIL_APP_PASSWORD cfg),
                 Sendmail (GMAIL_USER cfg) (EMAIL_TO cfg) msg])"

text \<open>
  \<open>main\<close>, with the date \<open>datetime.utcnow().date()\<close> as text: the result of the run,
  the lines printed and the mail operations attempted. The subject has an en dash.
\<close>

definition email_subject :: "pystr \<Rightarrow> pystr" where
  "email_subject today = S ''Daily Cloud & DevOps Jobs '' @ [8211] @ S '' '' @ today"

definition main :: "config \<Rightarrow> web \<Rightarrow> (smtp_event \<Rightarrow> bool) \<Rightarrow> pystr \<Rightarrow> (pyerror + unit) \<times> pystr list \<times> smtp_event list" where
  "main cfg w net today =
     (let (jobs, out) = collect_jobs w
      in case filter_jobs jobs of
           Inl e \<Rightarrow> (Inl e, out, [])
         | Inr matches \<Rightarrow>
             (case build_email_html matches of
                Inl e \<Rightarrow> (Inl e, out, [])
              | Inr html_body \<Rightarrow>
                  (let subject = email_subject today;
                       (r, sent) = send_email cfg net subject html_body
                   in (r, out, sent))))"

section \<open>The properties, in the words of the specification\<close>

text \<open>
  A record whose four text fields are strings where they are present, the text of a
  field (empty when the key is absent), and the text the filter looks at.
\<close>

definition text_keys :: "string list" where
  "text_keys = [''title'', ''company'', ''location'', ''snippet'']"

definition string_fields :: "job \<Rightarrow> bool" where
  "string_fields j = (\<forall>k \<in> set text_keys. j k \<noteq> Some PNone)"

definition str_field :: "job \<Rightarrow> string \<Rightarrow> pystr" where
  "str_field j k = (case j k of Some (PStr s) \<Rightarrow> s | _ \<Rightarrow> [])"

definition combined_text :: "job \<Rightarrow> pystr" where
  "combined_text j = normalize_text (join (S '' '') (map (str_field j) text_keys))"

text \<open>A job passes the filter iff all three predicates pass.\<close>

definition passes_all_three :: "job \<Rightarrow> bool" where
  "passes_all_three j =
     (text_contains_keywords (combined_text j)
      \<and> (case parse_experience_text (combined_text j) of
           (min_y, max_y) \<Rightarrow> experience_matches min_y max_y)
      \<and> location_matches (PStr (str_field j ''location'')))"

text \<open>
  Deduplication: iterate in order and keep the first record whose dedup key is not
  empty and has not been seen.
\<close>

fun first_seen :: "pyval set \<Rightarrow> job list \<Rightarrow> job list" where
  "first_seen seen [] = []"
| "first_seen seen (job # jobs) =
     (if truthy (dedup_key job) \<and> dedup_key job \<notin> seen
      then job # first_seen (insert (dedup_key job) seen) jobs
      else first_seen seen jobs)"

text \<open>
  What a group \<^verbatim>\<open>(\d{1,2})\<close> can hold: one or two decimal digits. \<open>groups_ok ps gs\<close>
  says that \<open>gs\<close> are texts for the capturing repetitions of \<open>ps\<close>, in order, each made
  of characters of its set and of an admissible length.
\<close>

definition two_digits :: "pystr \<Rightarrow> bool" where
  "two_digits ds = (ds \<noteq> [] \<and> length ds \<le> 2 \<and> list_all isdecimal ds)"


text \<open>
  The table of the formatter. A listing has a title, a link and a source, all strings. A
  row shows the index, the title as a hyperlink to the link, the company or else the
  source, and the location or else a dash; title, company and location are escaped and
  the link is not.
\<close>

definition listing :: "job \<Rightarrow> bool" where
  "listing j =
     ((\<exists>s. j ''title'' = Some (PStr s)) \<and> (\<exists>s. j ''link'' = Some (PStr s))
      \<and> (\<exists>s. j ''source'' = Some (PStr s)))"

definition company_or_source :: "job \<Rightarrow> pystr" where
  "company_or_source j =
     (if str_field j ''company'' \<noteq> [] then str_field j ''company'' else str_field j ''source'')"

definition location_or_dash :: "job \<Rightarrow> pystr" where
  "location_or_dash j =
     (if str_field j ''location'' \<noteq> [] then str_field j ''location'' else em_dash)"

definition table_row :: "nat \<Rightarrow> job \<Rightarrow> pystr" where
  "table_row i j =
     S ''<tr>''
     @ S ''<td>'' @ str_nat i @ S ''</td>''
     @ S ''<td><a href='' @ apos @ str_field j ''link'' @ apos @ S ''>''
       @ escape_str (str_field j ''title'') @ S ''</a></td>''
     @ S ''<td>'' @ escape_str (company_or_source j) @ S ''</td>''
     @ S ''<td>'' @ escape_str (location_or_dash j) @ S ''</td>''
     @ S ''</tr>''"

fun table_rows :: "nat \<Rightarrow> job list \<Rightarrow> pystr list" where
  "table_rows i [] = []"
| "table_rows i (j # js) = table_row i j # table_rows (Suc i) js"

definition table_open :: pystr where
  "table_open =
     S ''<table border='' @ apos @ S ''1'' @ apos @ S '' cellpadding='' @ apos @ S ''6'' @ apos
     @ S ''>'' @ S ''<tr><th>#</th><th>Title</th><th>Company</th><th>Location</th></tr>''"

section \<open>Example data\<close>

text \<open>
  Five scraped jobs: one that matches, one without a keyword, one asking for too many
  years, one in the wrong place, and one that matches with an empty location.
\<close>

definition job_a :: job where
  "job_a = [''title'' \<mapsto> PStr (S ''Senior DevOps Engineer''), ''company'' \<mapsto> PStr (S ''Acme''),
            ''location'' \<mapsto> PStr (S ''Remote, India''),
            ''link'' \<mapsto> PStr (S ''https://a.example/1''),
            ''source'' \<mapsto> PStr (S ''Indeed''),
            ''snippet'' \<mapsto> PStr (S ''3-5 years  of experience'')]"





text \<open>
  A web on which every Indeed page has three anchors, two with the same \<open>href\<close> and
  different texts and one with neither \<open>href\<close> nor text, and on which parsing every
  Wellfound page fails; and a web that is down.
\<close>

definition anchor_one :: anchor where
  "anchor_one = \<lparr>a_href = Some (S ''/rc/clk?jk=7''), a_text = S '' DevOps  Engineer'',
                  a_parent_text = Some (S ''DevOps Engineer Remote'')\<rparr>"

definition anchor_two :: anchor where
  "anchor_two = \<lparr>a_href = Some (S ''/rc/clk?jk=7''), a_text = S ''Cloud Engineer'',
                  a_parent_text = None\<rparr>"

definition anchor_three :: anchor where
  "anchor_three = \<lparr>a_href = None, a_text = S ''  '', a_parent_text = None\<rparr>"

definition web_example :: web where
  "web_example =
     \<lparr>http_get = (\<lambda>url. Inr []),
      soup_select = (\<lambda>text sel. case sel of
         Anchor_with_attr attr \<Rightarrow> Inr [anchor_one, anchor_two, anchor_three]
       | Anchor_href_contains part \<Rightarrow> Inl (Exception (S ''parser failed'')))\<rparr>"

definition web_down :: web where
  "web_down = \<lparr>http_get = (\<lambda>url. Inl (Exception (S ''timed out''))),
                soup_select = (\<lambda>text sel. Inr [])\<rparr>"

text \<open>A configuration without the sender's address, and one with both credentials.\<close>

definition config_unset :: config where
  "config_unset = \<lparr>GMAIL_USER = PNone, GMAIL_APP_PASSWORD = PStr (S ''app-password''),
                    EMAIL_TO = PNone, SENDER_NAME = S ''Daily Job Bot''\<rparr>"

definition config_set :: config where
  "config_set = \<lparr>GMAIL_USER = PStr (S ''bot@example.org''),
                  GMAIL_APP_PASSWORD = PStr (S ''app-password''),
                  EMAIL_TO = PStr (S ''bot@example.org''), SENDER_NAME = S ''Daily Job Bot''\<rparr>"

text \<open>A scraped job whose title and link have characters that HTML reserves.\<close>

definition job_markup :: job where
  "job_markup =
     [''title'' \<mapsto> PStr (S ''<b>SRE & Cloud</b>''), ''company'' \<mapsto> PNone,
      ''location'' \<mapsto> PStr [], ''link'' \<mapsto> PStr (S ''https://a.example/?q=<1>&r=2''),
      ''source'' \<mapsto> PStr (S ''Indeed''), ''snippet'' \<mapsto> PStr []]"

section \<open>Evaluation on literals\<close>

lemma S_Nil: "S [] = []"
  by (simp add: S_def)

lemma S_Cons: "S (c # cs) = of_char c # S cs"
  by (simp add: S_def)

lemma lit_Nil: "lit [] = []"
  by (simp add: lit_def)

lemma lit_Cons: "lit (c # cs) = One (Chr (of_char c)) # lit cs"
  by (simp add: lit_def)

lemmas string_eval = S_Nil S_Cons isspace_def isdecimal_def lower_def lower_char_def

lemmas regex_eval = lit_Nil lit_Cons rx_range_def rx_plus_def rx_minimum_def rx_years_def
  years_def digits12_def spaces0_def spaces1_def int_of_digits_def Let_def


section \<open>Experience window\<close>

lemma experience_matches_simps:
  "experience_matches None None = True"
  "experience_matches (Some lo) (Some hi) = (\<not> (hi < MIN_YEARS \<or> lo > MAX_YEARS))"
  "experience_matches (Some lo) None = (lo \<le> MAX_YEARS)"
  "experience_matches None (Some hi) = (hi \<ge> MIN_YEARS)"
  by (simp_all add: experience_matches_def)

text \<open>
  C4. With the configured window \<open>[MIN_YEARS, MAX_YEARS] = [2, 6]\<close>,
  \<open>experience_matches\<close> is true when both bounds are \<open>None\<close>; when both are known it
  is true iff the ranges are not disjoint, that is not (max < 2 or min > 6); when only
  the lower bound is known, iff it is at most 6; when only the upper bound is known, iff
  it is at least 2. So (3,5) passes, (7,None) fails, (None,1) fails, (None,None) passes
  and (1,2) passes.
\<close>

theorem experience_matches_window:
  "MIN_YEARS = 2 \<and> MAX_YEARS = 6
   \<and> experience_matches None None
   \<and> (\<forall>lo hi. experience_matches (Some lo) (Some hi) = (\<not> (hi < 2 \<or> lo > 6)))
   \<and> (\<forall>lo. experience_matches (Some lo) None = (lo \<le> 6))
   \<and> (\<forall>hi. experience_matches None (Some hi) = (hi \<ge> 2))
   \<and> experience_matches (Some 3) (Some 5)
   \<and> \<not> experience_matches (Some 7) None
   \<and> \<not> experience_matches None (Some 1)
   \<and> experience_matches (Some 1) (Some 2)"
proof -
  have window: "MIN_YEARS = 2" "MAX_YEARS = 6"
    by (simp_all add: MIN_YEARS_def MAX_YEARS_def)
  have both: "experience_matches (Some lo) (Some hi) = (\<not> (hi < 2 \<or> lo > 6))" for lo hi
    by (simp add: experience_matches_simps window)
  have lower_only: "experience_matches (Some lo) None = (lo \<le> 6)" for lo
    by (simp add: experience_matches_simps window)
  have upper_only: "experience_matches None (Some hi) = (hi \<ge> 2)" for hi
    by (simp add: experience_matches_simps window)
  show ?thesis
    by (simp add: window both lower_only upper_only experience_matches_simps(1))
qed

section \<open>Filtering\<close>

lemma str_in_sublist: "str_in k t = sublist k t"
  by (induction t) (simp_all add: sublist_Cons_right)

lemma dict_get_string:
  "j k \<noteq> Some PNone \<Longrightarrow> dict_get j k (PStr []) = PStr (str_field j k)"
  by (auto simp: dict_get_def str_field_def split: option.splits pyval.splits)

lemma dict_get_none: "j k = Some PNone \<Longrightarrow> dict_get j k d = PNone"
  by (simp add: dict_get_def)

lemma joined_fields_strings:
  assumes "string_fields j"
  shows "joined_fields j = Inr (join (S '' '') (map (str_field j) text_keys))"
proof -
  from assms have "dict_get j k (PStr []) = PStr (str_field j k)" if "k \<in> set text_keys" for k
    using that by (simp add: string_fields_def dict_get_string)
  then show ?thesis
    by (simp add: joined_fields_def join_values_def bind_def text_keys_def)
qed

lemma joined_fields_none:
  assumes "\<not> string_fields j"
  shows "joined_fields j = Inl TypeError"
proof -
  have v: "dict_get j k (PStr []) = PNone \<or> (\<exists>s. dict_get j k (PStr []) = PStr s)" for k
    by (cases "dict_get j k (PStr [])") auto
  from assms obtain k where k: "k \<in> set text_keys" "j k = Some PNone"
    by (auto simp: string_fields_def)
  then have n: "dict_get j k (PStr []) = PNone"
    by (simp add: dict_get_none)
  have "strings_of [dict_get j ''title'' (PStr []), dict_get j ''company'' (PStr []),
        dict_get j ''location'' (PStr []), dict_get j ''snippet'' (PStr [])] = Inl TypeError"
    using k(1) n v[of "''title''"] v[of "''company''"] v[of "''location''"] v[of "''snippet''"]
    by (auto simp: text_keys_def bind_def)
  then show ?thesis
    by (simp add: joined_fields_def join_values_def bind_def)
qed

lemma filter_loop_strings:
  "\<forall>j \<in> set jobs. string_fields j \<Longrightarrow>
     filter_loop filtered jobs = Inr (filtered @ filter passes_all_three jobs)"
proof (induction jobs arbitrary: filtered)
  case Nil
  then show ?case by simp
next
  case (Cons j js)
  then have j: "string_fields j" and js: "\<forall>j \<in> set js. string_fields j"
    by simp_all
  have loc: "dict_get j ''location'' (PStr []) = PStr (str_field j ''location'')"
    using j by (simp add: string_fields_def text_keys_def dict_get_string)
  show ?case
    using Cons.IH[OF js]
    by (simp add: joined_fields_strings[OF j] bind_def Let_def loc passes_all_three_def
        combined_text_def split: prod.splits)
qed

lemma filter_loop_none:
  "j \<in> set jobs \<Longrightarrow> \<not> string_fields j \<Longrightarrow> filter_loop filtered jobs = Inl TypeError"
proof (induction jobs arbitrary: filtered)
  case Nil
  then show ?case by simp
next
  case (Cons x xs)
  show ?case
  proof (cases "string_fields x")
    case True
    with Cons.prems have "j \<in> set xs" by auto
    then have "filter_loop acc xs = Inl TypeError" for acc
      using Cons.IH Cons.prems(2) by blast
    then show ?thesis
      by (simp add: joined_fields_strings[OF True] bind_def Let_def split: prod.splits)
  next
    case False
    then show ?thesis
      by (simp add: joined_fields_none bind_def)
  qed
qed

text \<open>
  The two text predicates say what the specification says: some target keyword or
  generic term, respectively some location term, occurs in the lower-cased text.
\<close>

lemma text_contains_keywords_meaning:
  "text_contains_keywords t =
     (\<exists>k \<in> set (map lower KEYWORDS @ [S ''devops'', S ''cloud'', S ''sre'', S ''site reliability'']).
        sublist k (lower t))"
  by (auto simp: text_contains_keywords_def Let_def list_ex_iff str_in_sublist)

lemma location_matches_meaning:
  "location_matches (PStr s) =
     (s = [] \<or> (\<exists>k \<in> set [S ''remote'', S ''india'', S ''pan india'', S ''india remote''].
                  sublist k (lower s)))"
  by (simp add: location_matches_def Let_def str_in_sublist)









subsection \<open>Records with \<open>None\<close> for a text field\<close>

lemma indeed_loop_append: "indeed_loop results as = results @ map indeed_job as"
  by (induction as arbitrary: results) simp_all

lemma indeed_job_company: "indeed_job a ''company'' = Some PNone"
  by (simp add: indeed_job_def Let_def)

lemma wellfound_job_company: "wellfound_job title link ''company'' = Some PNone"
  by (simp add: wellfound_job_def)

lemma wellfound_loop_company:
  "\<forall>j \<in> set results. j ''company'' = Some PNone \<Longrightarrow>
     \<forall>j \<in> set (wellfound_loop seen results as). j ''company'' = Some PNone"
proof (induction as arbitrary: seen results)
  case Nil
  then show ?case by simp
next
  case (Cons a as)
  have more: "\<forall>j \<in> set (results @ [wellfound_job t l]). j ''company'' = Some PNone" for t l
    using Cons.prems by (simp add: wellfound_job_company)
  have same: "\<forall>j \<in> set (wellfound_loop s results as). j ''company'' = Some PNone" for s
    using Cons.IH[OF Cons.prems] .
  have grown: "\<forall>j \<in> set (wellfound_loop s (results @ [wellfound_job t l]) as).
                 j ''company'' = Some PNone" for s t l
    using Cons.IH[OF more] .
  show ?case
    by (simp add: Let_def same grown split: option.splits)
qed

lemma scrape_indeed_results: "fst (scrape_indeed w kw) = fst (indeed_try w (indeed_url kw))"
  by (simp add: scrape_indeed_def Let_def split: prod.splits option.splits pyexn.splits)

lemma scrape_wellfound_results:
  "fst (scrape_wellfound w kw) = fst (wellfound_try w (wellfound_url kw))"
  by (simp add: scrape_wellfound_def Let_def split: prod.splits option.splits pyexn.splits)

lemma scrape_indeed_company:
  "\<forall>j \<in> set (fst (scrape_indeed w kw)). j ''company'' = Some PNone"
proof -
  have "\<forall>j \<in> set (fst (indeed_try w url)). j ''company'' = Some PNone" for url
    by (simp add: indeed_try_def indeed_loop_append indeed_job_company split: sum.splits)
  then show ?thesis
    by (simp add: scrape_indeed_results)
qed

lemma scrape_wellfound_company:
  "\<forall>j \<in> set (fst (scrape_wellfound w kw)). j ''company'' = Some PNone"
proof -
  have loop: "\<forall>j \<in> set (wellfound_loop {} [] as). j ''company'' = Some PNone" for as
    by (rule wellfound_loop_company) simp
  have "\<forall>j \<in> set (fst (wellfound_try w url)). j ''company'' = Some PNone" for url
    by (simp add: wellfound_try_def loop split: sum.splits)
  then show ?thesis
    by (simp add: scrape_wellfound_results)
qed

text \<open>
  C2. For every job record whose \<open>company\<close> key is present with the value \<open>None\<close>,
  which is the shape both fetchers produce, \<open>filter_jobs\<close> raises \<open>TypeError\<close>: the
  join of title, company, location and snippet is not defined on \<open>None\<close>, and
  \<open>filter_jobs\<close> returns a list exactly when the four text fields of every record
  are strings.
\<close>

theorem filter_jobs_company_none:
  "(\<forall>j \<in> set jobs. j ''company'' = Some PNone \<longrightarrow> filter_jobs jobs = Inl TypeError)
   \<and> ((\<exists>kept. filter_jobs jobs = Inr kept) = (\<forall>j \<in> set jobs. string_fields j))
   \<and> (\<forall>j \<in> set (fst (scrape_indeed w kw)). j ''company'' = Some PNone)
   \<and> (\<forall>j \<in> set (fst (scrape_wellfound w kw)). j ''company'' = Some PNone)"
proof -
  have raises: "filter_jobs jobs = Inl TypeError" if "j \<in> set jobs" "\<not> string_fields j" for j
    using filter_loop_none[OF that] by (simp add: filter_jobs_def)
  have company: "\<not> string_fields j" if "j ''company'' = Some PNone" for j :: job
    using that by (auto simp: string_fields_def text_keys_def)
  have returns: "filter_jobs jobs = Inr (filter passes_all_three jobs)"
    if "\<forall>j \<in> set jobs. string_fields j"
    using filter_loop_strings[OF that, of "[]"] by (simp add: filter_jobs_def)
  have defined: "(\<exists>kept. filter_jobs jobs = Inr kept) = (\<forall>j \<in> set jobs. string_fields j)"
  proof (cases "\<forall>j \<in> set jobs. string_fields j")
    case True
    then show ?thesis using returns by simp
  next
    case False
    then obtain j where "j \<in> set jobs" "\<not> string_fields j" by blast
    then have "filter_jobs jobs = Inl TypeError" by (rule raises)
    with False show ?thesis by simp
  qed
  have none: "\<forall>j \<in> set jobs. j ''company'' = Some PNone \<longrightarrow> filter_jobs jobs = Inl TypeError"
    using raises company by blast
  show ?thesis
    using none defined scrape_indeed_company[of w kw] scrape_wellfound_company[of w kw]
    by (intro conjI)
qed

theorem filter_jobs_company_none_witness:
  "filter_jobs
     [job_a, indeed_job \<lparr>a_href = Some (S ''/rc/clk?jk=7''), a_text = S ''DevOps Engineer'',
                         a_parent_text = Some (S ''DevOps Engineer Remote'')\<rparr>]
   = Inl TypeError"
proof -
  let ?j = "indeed_job \<lparr>a_href = Some (S ''/rc/clk?jk=7''), a_text = S ''DevOps Engineer'',
                         a_parent_text = Some (S ''DevOps Engineer Remote'')\<rparr>"
  have "\<forall>j \<in> set [job_a, ?j]. j ''company'' = Some PNone \<longrightarrow> filter_jobs [job_a, ?j] = Inl TypeError"
    using filter_jobs_company_none[of "[job_a, ?j]"] by (rule conjunct1)
  then show ?thesis
    by (simp add: indeed_job_company)
qed

section \<open>Deduplication\<close>

lemma unique_loop_first_seen:
  "unique_loop unique jobs =
     unique @ map (\<lambda>j. (dedup_key j, j)) (first_seen (set (map fst unique)) jobs)"
proof (induction jobs arbitrary: unique)
  case Nil
  show ?case by simp
next
  case (Cons j js)
  show ?case
  proof (cases "truthy (dedup_key j) \<and> dedup_key j \<notin> set (map fst unique)")
    case True
    then show ?thesis
      using Cons.IH[of "unique @ [(dedup_key j, j)]"] by (simp add: Let_def)
  next
    case False
    then show ?thesis
      using Cons.IH[of unique] by (auto simp: Let_def)
  qed
qed


lemma first_seen_keys:
  "dedup_key ` set (first_seen seen jobs) = {k \<in> dedup_key ` set jobs. truthy k \<and> k \<notin> seen}"
  by (induction jobs arbitrary: seen) (auto simp: image_iff)


lemma first_seen_truthy: "j \<in> set (first_seen seen jobs) \<Longrightarrow> truthy (dedup_key j)"
  using first_seen_keys[of seen jobs] by blast


lemma collect_jobs_first_seen: "fst (collect_jobs w) = first_seen {} (fetched_jobs w)"
  by (simp add: collect_jobs_def fetched_jobs_def unique_loop_first_seen comp_def
      split: prod.splits)

subsection \<open>The example web\<close>

lemma indeed_links:
  "dict_get (indeed_job anchor_one) ''link'' PNone = PStr (S ''https://in.indeed.com/rc/clk?jk=7'')"
  "dict_get (indeed_job anchor_two) ''link'' PNone = PStr (S ''https://in.indeed.com/rc/clk?jk=7'')"
  "dict_get (indeed_job anchor_three) ''link'' PNone = PStr []"
  "dict_get (indeed_job anchor_three) ''title'' PNone = PStr []"
  by (simp_all add: dict_get_def indeed_job_def Let_def anchor_one_def anchor_two_def
      anchor_three_def normalize_text_def split_def string_eval)

lemma indeed_keys:
  "truthy (dedup_key (indeed_job anchor_one))"
  "dedup_key (indeed_job anchor_two) = dedup_key (indeed_job anchor_one)"
  "\<not> truthy (dedup_key (indeed_job anchor_three))"
  by (simp_all add: dedup_key_def py_or_def indeed_links S_Cons)


lemma scrape_indeed_example:
  "scrape_indeed web_example kw =
     ([indeed_job anchor_one, indeed_job anchor_two, indeed_job anchor_three], [])"
  by (simp add: scrape_indeed_def indeed_try_def web_example_def Let_def)

lemma scrape_wellfound_example:
  "scrape_wellfound web_example kw = ([], [S ''Wellfound error: parser failed''])"
  by (simp add: scrape_wellfound_def wellfound_try_def web_example_def Let_def S_def)

lemma fetch_loop_example:
  "fetch_loop web_example jobs out kws =
     (jobs @ concat (map (\<lambda>kw. [indeed_job anchor_one, indeed_job anchor_two,
                                  indeed_job anchor_three]) kws),
      out @ map (\<lambda>kw. S ''Wellfound error: parser failed'') kws)"
  by (induction kws arbitrary: jobs out)
     (simp_all add: scrape_indeed_example scrape_wellfound_example)

lemma fetched_jobs_example:
  "fetched_jobs web_example =
     concat (replicate 8 [indeed_job anchor_one, indeed_job anchor_two, indeed_job anchor_three])"
  unfolding fetched_jobs_def fetch_loop_example
  by (simp add: KEYWORDS_def eval_nat_numeral)

lemma collect_jobs_example: "fst (collect_jobs web_example) = [indeed_job anchor_one]"
  by (simp add: collect_jobs_first_seen fetched_jobs_example indeed_keys eval_nat_numeral)

lemma fetch_loop_concat:
  "fetch_loop w jobs out kws =
     (jobs @ concat (map (\<lambda>kw. fst (scrape_indeed w kw) @ fst (scrape_wellfound w kw)) kws),
      out @ concat (map (\<lambda>kw. snd (scrape_indeed w kw) @ snd (scrape_wellfound w kw)) kws))"
  by (induction kws arbitrary: jobs out) (simp_all add: split_beta)

lemma fetched_jobs_concat:
  "fetched_jobs w =
     concat (map (\<lambda>kw. fst (scrape_indeed w kw) @ fst (scrape_wellfound w kw)) KEYWORDS)"
  by (simp add: fetched_jobs_def fetch_loop_concat)



text \<open>
  C6. Every record in the output of \<open>collect_jobs\<close> has a non-empty link or a
  non-empty title: its dedup key, the link when that is not empty and the title
  otherwise, is not empty. A record whose link and title are both empty is never
  retained.
\<close>

theorem collect_jobs_key_nonempty:
  "(\<forall>j \<in> set (fst (collect_jobs w)).
      truthy (dedup_key j)
      \<and> (truthy (dict_get j ''link'' PNone) \<or> truthy (dict_get j ''title'' PNone))
      \<and> dedup_key j = (if truthy (dict_get j ''link'' PNone) then dict_get j ''link'' PNone
                        else dict_get j ''title'' PNone))
   \<and> (\<forall>j. \<not> truthy (dict_get j ''link'' PNone) \<and> \<not> truthy (dict_get j ''title'' PNone)
          \<longrightarrow> j \<notin> set (fst (collect_jobs w)))"
proof -
  have key: "truthy (dedup_key j)" if "j \<in> set (fst (collect_jobs w))" for j
    using that by (simp add: collect_jobs_first_seen first_seen_truthy)
  have either: "truthy (dict_get j ''link'' PNone) \<or> truthy (dict_get j ''title'' PNone)"
    if "truthy (dedup_key j)" for j
    using that by (auto simp: dedup_key_def py_or_def split: if_splits)
  have pref: "dedup_key j = (if truthy (dict_get j ''link'' PNone) then dict_get j ''link'' PNone
                        else dict_get j ''title'' PNone)" for j
    by (simp add: dedup_key_def py_or_def)
  show ?thesis
    using key either pref by blast
qed

theorem collect_jobs_key_nonempty_witness:
  "truthy (dedup_key (indeed_job anchor_one))
   \<and> truthy (dict_get (indeed_job anchor_one) ''link'' PNone)
   \<and> dedup_key (indeed_job anchor_one) = dict_get (indeed_job anchor_one) ''link'' PNone
   \<and> indeed_job anchor_three \<in> set (fetched_jobs web_example)
   \<and> indeed_job anchor_three \<notin> set (fst (collect_jobs web_example))"
proof -
  have empty: "\<not> truthy (dict_get (indeed_job anchor_three) ''link'' PNone)
      \<and> \<not> truthy (dict_get (indeed_job anchor_three) ''title'' PNone)"
    by (simp add: indeed_links)
  have link: "truthy (dict_get (indeed_job anchor_one) ''link'' PNone)"
    by (simp add: indeed_links S_Cons)
  note retained = collect_jobs_key_nonempty[of web_example, THEN conjunct1, rule_format]
  note dropped = collect_jobs_key_nonempty[of web_example, THEN conjunct2, rule_format]
  have one: "indeed_job anchor_one \<in> set (fst (collect_jobs web_example))"
    by (simp add: collect_jobs_example)
  have "indeed_job anchor_three \<notin> set (fst (collect_jobs web_example))"
    using dropped[OF empty] .
  moreover have "truthy (dedup_key (indeed_job anchor_one))"
    using retained[OF one] by (rule conjunct1)
  moreover have "dedup_key (indeed_job anchor_one) = dict_get (indeed_job anchor_one) ''link'' PNone"
    using retained[OF one] link by simp
  ultimately show ?thesis
    using link by (simp add: fetched_jobs_example)
qed

section \<open>Fetch failures\<close>

lemma scrape_indeed_caught:
  "snd (indeed_try w (indeed_url kw)) = Some (Exception e) \<Longrightarrow>
     scrape_indeed w kw = (fst (indeed_try w (indeed_url kw)), [S ''Indeed error: '' @ e])"
  by (cases "indeed_try w (indeed_url kw)") (simp add: scrape_indeed_def Let_def)

lemma scrape_wellfound_caught:
  "snd (wellfound_try w (wellfound_url kw)) = Some (Exception e) \<Longrightarrow>
     scrape_wellfound w kw = (fst (wellfound_try w (wellfound_url kw)), [S ''Wellfound error: '' @ e])"
  by (cases "wellfound_try w (wellfound_url kw)") (simp add: scrape_wellfound_def Let_def)

lemma indeed_try_raised: "snd (indeed_try w url) = Some e \<Longrightarrow> fst (indeed_try w url) = []"
  by (auto simp: indeed_try_def split: sum.splits)

lemma wellfound_try_raised: "snd (wellfound_try w url) = Some e \<Longrightarrow> fst (wellfound_try w url) = []"
  by (auto simp: wellfound_try_def split: sum.splits)

lemma indeed_try_fetch: "http_get w url = Inl e \<Longrightarrow> indeed_try w url = ([], Some e)"
  by (simp add: indeed_try_def)

lemma indeed_try_parse:
  "http_get w url = Inr page \<Longrightarrow> soup_select w page (Anchor_with_attr (S ''data-jk'')) = Inl e \<Longrightarrow>
     indeed_try w url = ([], Some e)"
  by (simp add: indeed_try_def)

lemma wellfound_try_fetch: "http_get w url = Inl e \<Longrightarrow> wellfound_try w url = ([], Some e)"
  by (simp add: wellfound_try_def)

lemma wellfound_try_parse:
  "http_get w url = Inr page \<Longrightarrow> soup_select w page (Anchor_href_contains (S ''/jobs/'')) = Inl e \<Longrightarrow>
     wellfound_try w url = ([], Some e)"
  by (simp add: wellfound_try_def)

lemma fetch_loop_all_fail:
  assumes "\<forall>url. \<exists>e. http_get w url = Inl e"
  shows "fst (fetch_loop w jobs out kws) = jobs
         \<and> length (snd (fetch_loop w jobs out kws)) = length out + 2 * length kws"
proof (induction kws arbitrary: jobs out)
  case Nil
  show ?case by simp
next
  case (Cons kw kws)
  from assms obtain e1 where "http_get w (indeed_url kw) = Inl e1" by blast
  then have i: "indeed_try w (indeed_url kw) = ([], Some e1)"
    by (rule indeed_try_fetch)
  from assms obtain e2 where "http_get w (wellfound_url kw) = Inl e2" by blast
  then have f: "wellfound_try w (wellfound_url kw) = ([], Some e2)"
    by (rule wellfound_try_fetch)
  obtain m1 where m1: "e1 = Exception m1" by (cases e1)
  obtain m2 where m2: "e2 = Exception m2" by (cases e2)
  have "scrape_indeed w kw = ([], [S ''Indeed error: '' @ m1])"
    using scrape_indeed_caught[of w kw m1] i m1 by simp
  moreover have "scrape_wellfound w kw = ([], [S ''Wellfound error: '' @ m2])"
    using scrape_wellfound_caught[of w kw m2] f m2 by simp
  ultimately show ?case
    using Cons.IH by simp
qed

lemma collect_jobs_all_fail:
  assumes "\<forall>url. \<exists>e. http_get w url = Inl e"
  shows "fst (collect_jobs w) = [] \<and> length (snd (collect_jobs w)) = 2 * length KEYWORDS"
proof -
  obtain jobs out where l: "fetch_loop w [] [] KEYWORDS = (jobs, out)"
    by (cases "fetch_loop w [] [] KEYWORDS")
  with fetch_loop_all_fail[OF assms, of "[]" "[]" KEYWORDS]
  have "jobs = []" "length out = 2 * length KEYWORDS"
    by simp_all
  then show ?thesis
    using l by (simp add: collect_jobs_def)
qed

lemma main_no_jobs:
  assumes "fst (collect_jobs w) = []"
  shows "main cfg w net today =
      (fst (send_email cfg net (email_subject today) (S ''<p>No matching jobs found today.</p>'')),
       snd (collect_jobs w),
       snd (send_email cfg net (email_subject today) (S ''<p>No matching jobs found today.</p>'')))"
  using assms
  by (cases "collect_jobs w")
     (simp add: main_def filter_jobs_def build_email_html_def Let_def split: prod.splits)

text \<open>
  C7. For every fetcher call, if an exception occurs during the call (the fetch fails,
  or parsing the page fails), the error is printed and the call returns the empty list.
  The failure does not abort the run: even when every fetch fails, \<open>collect_jobs\<close>
  returns (no jobs, one line printed per call) and \<open>main\<close> goes on to send the mail.
\<close>

theorem scrapers_catch_failures:
  "(\<forall>e. snd (indeed_try w (indeed_url kw)) = Some (Exception e) \<longrightarrow>
        scrape_indeed w kw = ([], [S ''Indeed error: '' @ e]))
   \<and> (\<forall>e. snd (wellfound_try w (wellfound_url kw)) = Some (Exception e) \<longrightarrow>
        scrape_wellfound w kw = ([], [S ''Wellfound error: '' @ e]))
   \<and> (\<forall>e. http_get w (indeed_url kw) = Inl (Exception e) \<longrightarrow>
        scrape_indeed w kw = ([], [S ''Indeed error: '' @ e]))
   \<and> (\<forall>e page. http_get w (indeed_url kw) = Inr page
        \<and> soup_select w page (Anchor_with_attr (S ''data-jk'')) = Inl (Exception e) \<longrightarrow>
        scrape_indeed w kw = ([], [S ''Indeed error: '' @ e]))
   \<and> (\<forall>e. http_get w (wellfound_url kw) = Inl (Exception e) \<longrightarrow>
        scrape_wellfound w kw = ([], [S ''Wellfound error: '' @ e]))
   \<and> (\<forall>e page. http_get w (wellfound_url kw) = Inr page
        \<and> soup_select w page (Anchor_href_contains (S ''/jobs/'')) = Inl (Exception e) \<longrightarrow>
        scrape_wellfound w kw = ([], [S ''Wellfound error: '' @ e]))
   \<and> ((\<forall>url. \<exists>e. http_get w url = Inl e) \<longrightarrow>
        fst (collect_jobs w) = [] \<and> length (snd (collect_jobs w)) = 2 * length KEYWORDS
        \<and> main cfg w net today =
            (fst (send_email cfg net (email_subject today) (S ''<p>No matching jobs found today.</p>'')),
             snd (collect_jobs w),
             snd (send_email cfg net (email_subject today) (S ''<p>No matching jobs found today.</p>''))))"
proof -
  have indeed: "scrape_indeed w kw = ([], [S ''Indeed error: '' @ e])"
    if "snd (indeed_try w (indeed_url kw)) = Some (Exception e)" for e
    using scrape_indeed_caught[OF that] indeed_try_raised[OF that] by simp
  have wellfound: "scrape_wellfound w kw = ([], [S ''Wellfound error: '' @ e])"
    if "snd (wellfound_try w (wellfound_url kw)) = Some (Exception e)" for e
    using scrape_wellfound_caught[OF that] wellfound_try_raised[OF that] by simp
  have indeed_fetch: "scrape_indeed w kw = ([], [S ''Indeed error: '' @ e])"
    if "http_get w (indeed_url kw) = Inl (Exception e)" for e
    using indeed[of e] indeed_try_fetch[OF that] by simp
  have indeed_parse: "scrape_indeed w kw = ([], [S ''Indeed error: '' @ e])"
    if "http_get w (indeed_url kw) = Inr page"
       "soup_select w page (Anchor_with_attr (S ''data-jk'')) = Inl (Exception e)" for e page
    using indeed[of e] indeed_try_parse[OF that] by simp
  have wellfound_fetch: "scrape_wellfound w kw = ([], [S ''Wellfound error: '' @ e])"
    if "http_get w (wellfound_url kw) = Inl (Exception e)" for e
    using wellfound[of e] wellfound_try_fetch[OF that] by simp
  have wellfound_parse: "scrape_wellfound w kw = ([], [S ''Wellfound error: '' @ e])"
    if "http_get w (wellfound_url kw) = Inr page"
       "soup_select w page (Anchor_href_contains (S ''/jobs/'')) = Inl (Exception e)" for e page
    using wellfound[of e] wellfound_try_parse[OF that] by simp
  have run: "fst (collect_jobs w) = [] \<and> length (snd (collect_jobs w)) = 2 * length KEYWORDS
        \<and> main cfg w net today =
            (fst (send_email cfg net (email_subject today) (S ''<p>No matching jobs found today.</p>'')),
             snd (collect_jobs w),
             snd (send_email cfg net (email_subject today) (S ''<p>No matching jobs found today.</p>'')))"
    if down: "\<forall>url. \<exists>e. http_get w url = Inl e"
    using collect_jobs_all_fail[OF down] main_no_jobs[of w cfg net today] by simp
  show ?thesis
    using indeed wellfound indeed_fetch indeed_parse wellfound_fetch wellfound_parse run
    by (intro conjI allI impI) (blast+)?
qed


theorem scrapers_catch_failures_witness:
  "scrape_indeed web_down (S ''DevOps Engineer'') = ([], [S ''Indeed error: timed out''])
   \<and> scrape_wellfound web_example (S ''DevOps Engineer'')
       = ([], [S ''Wellfound error: parser failed''])
   \<and> fst (collect_jobs web_down) = []
   \<and> length (snd (collect_jobs web_down)) = 16"
proof -
  note c7 = scrapers_catch_failures[of web_down "S ''DevOps Engineer''"]
  have down: "http_get web_down url = Inl (Exception (S ''timed out''))" for url
    by (simp add: web_down_def)
  have a: "scrape_indeed web_down (S ''DevOps Engineer'') = ([], [S ''Indeed error: '' @ S ''timed out''])"
    using c7[THEN conjunct2, THEN conjunct2, THEN conjunct1, rule_format, OF down] .
  have page: "http_get web_example url = Inr []" for url
    by (simp add: web_example_def)
  have parse: "soup_select web_example [] (Anchor_href_contains (S ''/jobs/''))
      = Inl (Exception (S ''parser failed''))"
    by (simp add: web_example_def)
  have b: "scrape_wellfound web_example (S ''DevOps Engineer'')
      = ([], [S ''Wellfound error: '' @ S ''parser failed''])"
    using scrapers_catch_failures[of web_example "S ''DevOps Engineer''"] page parse by blast
  have "\<forall>url. \<exists>e. http_get web_down url = Inl e"
    using down by blast
  with c7 have c: "fst (collect_jobs web_down) = [] \<and> length (snd (collect_jobs web_down)) = 2 * length KEYWORDS"
    by blast
  show ?thesis
    using a b c by (simp add: S_def KEYWORDS_def)
qed

section \<open>Missing credentials\<close>

lemma send_email_falsy:
  "\<not> truthy (GMAIL_USER cfg) \<or> \<not> truthy (GMAIL_APP_PASSWORD cfg) \<Longrightarrow>
     send_email cfg net subject body = (Inl RuntimeError, [])"
  by (auto simp: send_email_def)

lemma main_falsy:
  assumes "\<not> truthy (GMAIL_USER cfg) \<or> \<not> truthy (GMAIL_APP_PASSWORD cfg)"
  shows "\<exists>e. main cfg w net today = (Inl e, snd (collect_jobs w), [])"
proof -
  obtain jobs out where c: "collect_jobs w = (jobs, out)"
    by (cases "collect_jobs w")
  show ?thesis
  proof (cases "filter_jobs jobs")
    case (Inl e)
    then show ?thesis by (simp add: main_def c)
  next
    case (Inr matches)
    show ?thesis
    proof (cases "build_email_html matches")
      case (Inl e)
      then show ?thesis by (simp add: main_def c Inr)
    next
      case built: (Inr html_body)
      show ?thesis
        by (simp add: main_def c Inr built Let_def send_email_falsy[OF assms])
    qed
  qed
qed

lemma send_email_with_credentials:
  "send_email config_set (\<lambda>e. True) subject body =
     (Inr (),
      [Connect (S ''smtp.gmail.com'') 587, Starttls,
       Login (PStr (S ''bot@example.org'')) (PStr (S ''app-password'')),
       Sendmail (PStr (S ''bot@example.org'')) (PStr (S ''bot@example.org''))
         \<lparr>msg_from = S ''Daily Job Bot <bot@example.org>'', msg_to = PStr (S ''bot@example.org''),
          msg_subject = subject, msg_html = body\<rparr>])"
  by (simp add: send_email_def config_set_def Let_def S_def)

text \<open>
  C9. If either mail credential (\<open>GMAIL_USER\<close> or \<open>GMAIL_APP_PASSWORD\<close>) is unset,
  \<open>send_email\<close> raises an error before any network operation, for every subject and
  body: no SMTP connection is attempted, and the run ends with an error.
\<close>

theorem send_email_missing_credentials:
  "GMAIL_USER cfg = PNone \<or> GMAIL_APP_PASSWORD cfg = PNone \<Longrightarrow>
     send_email cfg net subject body = (Inl RuntimeError, [])
     \<and> (\<exists>e. main cfg w net today = (Inl e, snd (collect_jobs w), []))"
proof -
  assume "GMAIL_USER cfg = PNone \<or> GMAIL_APP_PASSWORD cfg = PNone"
  then have falsy: "\<not> truthy (GMAIL_USER cfg) \<or> \<not> truthy (GMAIL_APP_PASSWORD cfg)"
    by auto
  show ?thesis
    using send_email_falsy[OF falsy] main_falsy[OF falsy] by simp
qed

theorem send_email_missing_credentials_witness:
  "send_email config_unset (\<lambda>e. True) (email_subject (S ''2026-11-03'')) (S ''<p>No matching jobs found today.</p>'')
     = (Inl RuntimeError, [])
   \<and> main config_unset web_down (\<lambda>e. True) (S ''2026-11-03'')
       = (Inl RuntimeError, snd (collect_jobs web_down), [])"
proof -
  have unset: "GMAIL_USER config_unset = PNone \<or> GMAIL_APP_PASSWORD config_unset = PNone"
    by (simp add: config_unset_def)
  have sent: "send_email config_unset net subject body = (Inl RuntimeError, [])" for net subject body
    using send_email_missing_credentials[OF unset] by (rule conjunct1)
  have "\<forall>url. \<exists>e. http_get web_down url = Inl e"
    by (simp add: web_down_def)
  then have "fst (collect_jobs web_down) = []"
    using collect_jobs_all_fail by blast
  then have "main config_unset web_down (\<lambda>e. True) (S ''2026-11-03'')
       = (Inl RuntimeError, snd (collect_jobs web_down), [])"
    by (simp add: main_no_jobs sent)
  with sent show ?thesis by simp
qed

section \<open>The shape of a parsed experience\<close>

lemma experience_matches_by_branch:
  "experience_matches min_y max_y =
     (case experience_branch min_y max_y of
        Both_unknown \<Rightarrow> True
      | Both_known \<Rightarrow> \<not> (the max_y < MIN_YEARS \<or> the min_y > MAX_YEARS)
      | Only_lower \<Rightarrow> the min_y \<le> MAX_YEARS
      | Only_upper \<Rightarrow> the max_y \<ge> MIN_YEARS
      | Final_false \<Rightarrow> False)"
  by (simp add: experience_matches_def experience_branch_def)

lemma experience_branch_total: "experience_branch min_y max_y \<noteq> Final_false"
  by (simp add: experience_branch_def)

text \<open>
  C10. For every text, \<open>parse_experience_text\<close> never returns a pair whose lower bound
  is \<open>None\<close> while the upper bound is known: every result is (None, None), (N, None)
  or (N, M). So on the results of \<open>parse_experience_text\<close> the upper-bound-only
  branch of \<open>experience_matches\<close> and its final \<open>return False\<close> are not reached.
\<close>

theorem parse_experience_text_shape:
  "(parse_experience_text t = (None, None)
      \<or> (\<exists>n. parse_experience_text t = (Some n, None))
      \<or> (\<exists>n m. parse_experience_text t = (Some n, Some m)))
   \<and> (\<forall>m. parse_experience_text t \<noteq> (None, Some m))
   \<and> experience_branch (fst (parse_experience_text t)) (snd (parse_experience_text t))
        \<in> {Both_unknown, Only_lower, Both_known}"
proof -
  have shape: "parse_experience_text t = (None, None)
      \<or> (\<exists>n. parse_experience_text t = (Some n, None))
      \<or> (\<exists>n m. parse_experience_text t = (Some n, Some m))"
    by (simp add: parse_experience_text_def Let_def split: option.splits)
  then have no_upper: "\<forall>m. parse_experience_text t \<noteq> (None, Some m)"
    by auto
  from shape have "experience_branch (fst (parse_experience_text t)) (snd (parse_experience_text t))
        \<in> {Both_unknown, Only_lower, Both_known}"
    by (auto simp: experience_branch_def)
  with shape no_upper show ?thesis by blast
qed

theorem parse_experience_text_shape_witness:
  "parse_experience_text (S ''5+ years'') = (Some 5, None)
   \<and> experience_branch (fst (parse_experience_text (S ''5+ years'')))
        (snd (parse_experience_text (S ''5+ years''))) = Only_lower"
proof -
  have p: "parse_experience_text (S ''5+ years'') = (Some 5, None)"
    by (simp add: parse_experience_text_def string_eval regex_eval)
  from parse_experience_text_shape[of "S ''5+ years''"] show ?thesis
    unfolding p by (simp add: experience_branch_def)
qed

section \<open>The e-mail table\<close>

lemma join_empty_sep: "join [] rows = concat rows"
  by (induction "[] :: pystr" rows rule: join.induct) simp_all

lemma build_row_listing:
  assumes "listing j"
  shows "build_row i j = Inr (table_row i j)"
proof -
  from assms obtain title link source where
    f: "j ''title'' = Some (PStr title)" "j ''link'' = Some (PStr link)"
       "j ''source'' = Some (PStr source)"
    by (auto simp: listing_def)
  have company: "(let company = dict_get j ''company'' PNone
                  in if truthy company then Inr company else dict_index j ''source'')
        = Inr (PStr (company_or_source j))"
  proof (cases "j ''company''")
    case None
    then show ?thesis
      by (simp add: dict_get_def dict_index_def company_or_source_def str_field_def f)
  next
    case (Some v)
    then show ?thesis
      by (cases v) (simp_all add: dict_get_def dict_index_def company_or_source_def str_field_def f)
  qed
  have location: "py_or (dict_get j ''location'' PNone) (PStr em_dash) = PStr (location_or_dash j)"
  proof (cases "j ''location''")
    case None
    then show ?thesis
      by (simp add: dict_get_def py_or_def location_or_dash_def str_field_def)
  next
    case (Some v)
    then show ?thesis
      by (cases v) (simp_all add: dict_get_def py_or_def location_or_dash_def str_field_def)
  qed
  have fields: "dict_index j ''link'' = Inr (PStr link)" "dict_index j ''title'' = Inr (PStr title)"
    "str_field j ''link'' = link" "str_field j ''title'' = title"
    by (simp_all add: dict_index_def str_field_def f)
  show ?thesis
    unfolding build_row_def company location fields table_row_def bind_def
    by (simp only: sum.case html_escape.simps format_value.simps)
qed

lemma build_rows_listing:
  "\<forall>j \<in> set jobs. listing j \<Longrightarrow> build_rows rows i jobs = Inr (rows @ table_rows i jobs)"
proof (induction jobs arbitrary: rows i)
  case Nil
  show ?case by simp
next
  case (Cons j js)
  then show ?case
    by (simp add: build_row_listing bind_def)
qed

lemma table_rows_length: "length (table_rows i jobs) = length jobs"
  by (induction jobs arbitrary: i) simp_all

lemma table_rows_nth: "k < length jobs \<Longrightarrow> table_rows i jobs ! k = table_row (i + k) (jobs ! k)"
proof (induction jobs arbitrary: i k)
  case Nil
  then show ?case by simp
next
  case (Cons j js)
  show ?case
  proof (cases k)
    case 0
    then show ?thesis by simp
  next
    case (Suc k')
    with Cons.prems have "k' < length js" by simp
    from Cons.IH[OF this, of "Suc i"] Suc show ?thesis by simp
  qed
qed

lemma escape_char_safe:
  "c' \<in> set (escape_char c) \<Longrightarrow> c' \<noteq> 60 \<and> c' \<noteq> 62 \<and> c' \<noteq> 34 \<and> c' \<noteq> 39"
  by (auto simp: escape_char_def S_def split: if_splits)

lemma escape_str_safe:
  "c' \<in> set (escape_str s) \<Longrightarrow> c' \<noteq> 60 \<and> c' \<noteq> 62 \<and> c' \<noteq> 34 \<and> c' \<noteq> 39"
  unfolding escape_str_def using escape_char_safe by fastforce


text \<open>
  C8. \<open>build_email_html\<close> maps the empty list to the fixed string
  \<open><p>No matching jobs found today.</p>\<close>. For every non-empty list of listings it
  produces an HTML table with one row per job, whose columns are the 1-based index, the
  title as a hyperlink to the link, the company or else the source, and the location or
  else a placeholder; title, company and location are HTML-escaped (\<open><\<close> becomes
  \<open>&lt;\<close>) and the link is inserted as it is.
\<close>

theorem build_email_html_table:
  "build_email_html [] = Inr (S ''<p>No matching jobs found today.</p>'')
   \<and> (jobs \<noteq> [] \<and> (\<forall>j \<in> set jobs. listing j) \<longrightarrow>
        build_email_html jobs = Inr (table_open @ concat (table_rows 1 jobs) @ S ''</table>'')
        \<and> length (table_rows 1 jobs) = length jobs
        \<and> (\<forall>k < length jobs. table_rows 1 jobs ! k = table_row (k + 1) (jobs ! k)))
   \<and> (\<forall>s. \<forall>c \<in> set (escape_str s). c \<notin> set (S ''<>'') \<and> c \<noteq> of_char CHR 0x22
          \<and> c \<noteq> of_char CHR 0x27)
   \<and> escape_str (S ''<'') = S ''&lt;''"
proof -
  have none: "build_email_html [] = Inr (S ''<p>No matching jobs found today.</p>'')"
    by (simp add: build_email_html_def)
  have table: "build_email_html jobs = Inr (table_open @ concat (table_rows 1 jobs) @ S ''</table>'')"
    if "jobs \<noteq> []" "\<forall>j \<in> set jobs. listing j"
    using that build_rows_listing[OF that(2), of "[]" 1]
    by (simp add: build_email_html_def bind_def join_empty_sep table_open_def)
  have rows: "\<forall>k < length jobs. table_rows 1 jobs ! k = table_row (k + 1) (jobs ! k)"
    using table_rows_nth[of _ jobs 1] by simp
  have safe: "\<forall>s. \<forall>c \<in> set (escape_str s). c \<notin> set (S ''<>'') \<and> c \<noteq> of_char CHR 0x22
          \<and> c \<noteq> of_char CHR 0x27"
    using escape_str_safe by (auto simp: S_def)
  have lt: "escape_str (S ''<'') = S ''&lt;''"
    by (simp add: escape_str_def escape_char_def S_def)
  show ?thesis
    using none table rows safe lt table_rows_length[of 1 jobs] by blast
qed

theorem build_email_html_table_witness:
  "build_email_html [job_markup] =
     Inr (table_open
          @ S ''<tr><td>1</td><td><a href='' @ apos @ S ''https://a.example/?q=<1>&r=2'' @ apos
          @ S ''>&lt;b&gt;SRE &amp; Cloud&lt;/b&gt;</a></td><td>Indeed</td><td>'' @ em_dash
          @ S ''</td></tr></table>'')"
proof -
  have l: "[job_markup] \<noteq> [] \<and> (\<forall>j \<in> set [job_markup]. listing j)"
    by (simp add: listing_def job_markup_def)
  have row: "table_row 1 job_markup =
      S ''<tr><td>1</td><td><a href='' @ apos @ S ''https://a.example/?q=<1>&r=2'' @ apos
      @ S ''>&lt;b&gt;SRE &amp; Cloud&lt;/b&gt;</a></td><td>Indeed</td><td>'' @ em_dash
      @ S ''</td></tr>''"
    by (simp add: table_row_def company_or_source_def location_or_dash_def str_field_def
        job_markup_def escape_str_def escape_char_def S_def em_dash_def)
  from build_email_html_table[of "[job_markup]"] l
  have "build_email_html [job_markup]
      = Inr (table_open @ concat (table_rows 1 [job_markup]) @ S ''</table>'')"
    by blast
  then show ?thesis
    by (simp add: row[unfolded One_nat_def] S_def apos_def em_dash_def)
qed

section \<open>Parsing an experience range\<close>

lemma tries_top: "lo \<le> k \<Longrightarrow> f k = Some r \<Longrightarrow> tries f lo k = Some r"
  by (cases k) auto


lemma takeWhile_run:
  "\<forall>c \<in> set xs. P c \<Longrightarrow> ys = [] \<or> \<not> P (hd ys) \<Longrightarrow> takeWhile P (xs @ ys) = xs"
  by (cases ys) (simp_all add: takeWhile_append2)

lemma rx_match_run:
  assumes "\<forall>c \<in> set xs. in_atom a c" and "ys = [] \<or> \<not> in_atom a (hd ys)"
    and "lo \<le> length xs" and "case hi of None \<Rightarrow> True | Some h \<Rightarrow> length xs \<le> h"
    and "rx_match ps ys = Some gs"
  shows "rx_match (Many capture a lo hi # ps) (xs @ ys) = Some (if capture then xs # gs else gs)"
proof -
  have avail: "length (takeWhile (in_atom a) (xs @ ys)) = length xs"
    using takeWhile_run[OF assms(1,2)] by simp
  have most: "(case hi of None \<Rightarrow> length xs | Some h \<Rightarrow> min h (length xs)) = length xs"
    using assms(4) by (cases hi) simp_all
  show ?thesis
    unfolding rx_match.simps Let_def avail most
    by (rule tries_top[OF assms(3)]) (simp add: assms(5))
qed












lemma two_digits_cases:
  assumes "two_digits ds"
  obtains a where "ds = [a]" "isdecimal a"
  | a b where "ds = [a, b]" "isdecimal a" "isdecimal b"
proof (cases ds)
  case Nil
  with assms show ?thesis by (simp add: two_digits_def)
next
  case (Cons a as)
  show ?thesis
  proof (cases as)
    case Nil
    with Cons assms that(1) show ?thesis by (simp add: two_digits_def)
  next
    case (Cons b bs)
    with \<open>ds = a # as\<close> assms have "bs = []" "isdecimal a" "isdecimal b"
      by (simp_all add: two_digits_def)
    with Cons \<open>ds = a # as\<close> that(2) show ?thesis by simp
  qed
qed

lemma int_of_digits_range: "two_digits ds \<Longrightarrow> 0 \<le> int_of_digits ds \<and> int_of_digits ds < 100"
  by (erule two_digits_cases) (auto simp: int_of_digits_def isdecimal_def)









lemma parse_experience_text_en_dash:
  "parse_experience_text (S ''Exp: 3 '' @ [8211] @ S '' 5 YEARS'') = (Some 3, Some 5)"
  by (simp add: parse_experience_text_def string_eval regex_eval)



section \<open>A run that scrapes a job\<close>

lemma fetched_jobs_company: "\<forall>j \<in> set (fetched_jobs w). j ''company'' = Some PNone"
  using scrape_indeed_company scrape_wellfound_company
  by (auto simp: fetched_jobs_concat)

lemma first_seen_subset: "set (first_seen seen jobs) \<subseteq> set jobs"
  by (induction jobs arbitrary: seen) auto

lemma collected_jobs_company: "\<forall>j \<in> set (fst (collect_jobs w)). j ''company'' = Some PNone"
proof -
  have "set (fst (collect_jobs w)) \<subseteq> set (fetched_jobs w)"
    by (simp add: collect_jobs_first_seen first_seen_subset)
  with fetched_jobs_company show ?thesis by blast
qed

text \<open>
  So a run that scrapes at least one job with a link or a title ends in \<open>TypeError\<close>,
  before anything is sent.
\<close>

lemma main_raises_on_scraped_jobs:
  assumes "fst (collect_jobs w) \<noteq> []"
  shows "main cfg w net today = (Inl TypeError, snd (collect_jobs w), [])"
proof -
  obtain jobs out where c: "collect_jobs w = (jobs, out)"
    by (cases "collect_jobs w")
  with assms obtain j where j: "j \<in> set jobs"
    by (cases jobs) auto
  with collected_jobs_company[of w] c have "j ''company'' = Some PNone"
    by simp
  then have "\<not> string_fields j"
    by (auto simp: string_fields_def text_keys_def)
  from filter_loop_none[OF j this] have "filter_jobs jobs = Inl TypeError"
    by (simp add: filter_jobs_def)
  then show ?thesis
    by (simp add: main_def c)
qed

lemma main_example:
  "main config_set web_example (\<lambda>e. True) today
     = (Inl TypeError, snd (collect_jobs web_example), [])"
  by (rule main_raises_on_scraped_jobs) (simp add: collect_jobs_example)

end
